theory Spec2Isabelle
  imports Main
begin

section \<open>JavaScript values and property bags\<close>

text \<open>
  The property bag handed to a component is a JavaScript object whose values have the
  TypeScript type \<^verbatim>\<open>unknown\<close> (\<^verbatim>\<open>ComponentProps\<close> in \<^verbatim>\<open>types.ts\<close>).
  The engine only looks a value up by key and spreads it, so a value is modelled by
  its kind and by what an object spread sees of it.  The payload of a number is never
  inspected.  Strings are lists of ASCII characters.  An object (a function or a class
  instance as well) is the map of its own enumerable keys; the order of keys is not
  observable by the engine.  A bag is read by its own keys: what a read of an inherited
  key would yield (a method of \<^verbatim>\<open>Object.prototype\<close>, or that object itself) has no
  own enumerable key, so that its spread copies nothing, as that of \<^verbatim>\<open>undefined\<close>.
\<close>

datatype jsval =
    JUndefined
  | JNull
  | JBool bool
  | JNum int
  | JStr string
  | JArr "jsval list"
  | JObj "string \<Rightarrow> jsval option"

type_synonym ComponentProps = "string \<rightharpoonup> jsval"

text \<open>\<^verbatim>\<open>props[k]\<close>: reading a key that is not there gives \<^verbatim>\<open>undefined\<close>.\<close>

definition getProp :: "ComponentProps \<Rightarrow> string \<Rightarrow> jsval" where
  "getProp props k = (case props k of None \<Rightarrow> JUndefined | Some v \<Rightarrow> v)"

text \<open>The decimal text of an array index, as JavaScript names the keys of an array.\<close>

fun showNat :: "nat \<Rightarrow> string" where
  "showNat n =
     (if n < 10 then [''0123456789'' ! n]
      else showNat (n div 10) @ [''0123456789'' ! (n mod 10)])"

declare showNat.simps [simp del]

text \<open>
  \<^verbatim>\<open>...(v as object)\<close>: the own enumerable entries that an object spread copies.
  The cast is erased at run time.  Spreading \<^verbatim>\<open>undefined\<close>, \<^verbatim>\<open>null\<close>, a boolean
  or a number copies nothing; spreading a string or an array copies one entry per index.
\<close>

fun ownEntries :: "jsval \<Rightarrow> ComponentProps" where
  "ownEntries (JObj m) = m"
| "ownEntries (JArr xs) = map_of (zip (map showNat [0..<length xs]) xs)"
| "ownEntries (JStr s) = map_of (zip (map showNat [0..<length s]) (map (\<lambda>c. JStr [c]) s))"
| "ownEntries JUndefined = Map.empty"
| "ownEntries JNull = Map.empty"
| "ownEntries (JBool b) = Map.empty"
| "ownEntries (JNum n) = Map.empty"

section \<open>Renderable units\<close>

text \<open>
  \<^verbatim>\<open>ReactComponent\<close>: the null renderable \<^verbatim>\<open>Fragment\<close>, a value that is opaque
  to the engine and named here by a tag (a caller-supplied component, or whatever else
  a read of the registry yields), or the function value that \<^verbatim>\<open>getShape\<close> returns.  That closure is represented by the seven variables it
  captures, after the defaults of the destructuring have been applied:
  containerID, componentID, containerName, componentName, Container, Content, Component.
  \<^verbatim>\<open>component === Fragment\<close> is equality with the constructor \<open>Fragment\<close>.
\<close>

datatype ReactComponent =
    Fragment
  | Leaf string
  | Shape string string string string ReactComponent ReactComponent ReactComponent

text \<open>
  \<^verbatim>\<open>ComponentsMap\<close>: the registry is a JavaScript object, and \<^verbatim>\<open>components[name]\<close>
  is a plain property read: it yields the object's own entry of that name, else the
  member of that name that the object inherits from its prototype, else
  \<^verbatim>\<open>undefined\<close> (\<open>None\<close>).
\<close>

record ComponentsMap =
  own :: "string \<rightharpoonup> ReactComponent"
  inherited :: "string \<rightharpoonup> ReactComponent"

definition readComponent :: "ComponentsMap \<Rightarrow> string \<Rightarrow> ReactComponent option" where
  "readComponent components name =
     (case own components name of
        Some c \<Rightarrow> Some c
      | None \<Rightarrow> inherited components name)"

text \<open>
  The members every object literal inherits from \<^verbatim>\<open>Object.prototype\<close>: eleven
  functions and the accessor \<^verbatim>\<open>__proto__\<close>, which reads as the prototype itself.
  None of them is \<^verbatim>\<open>Fragment\<close> or \<^verbatim>\<open>undefined\<close>.
\<close>

definition objectPrototype :: "string \<rightharpoonup> ReactComponent" where
  "objectPrototype =
     map_of
       [(''constructor'', Leaf ''Object''),
        (''hasOwnProperty'', Leaf ''Object.prototype.hasOwnProperty''),
        (''isPrototypeOf'', Leaf ''Object.prototype.isPrototypeOf''),
        (''propertyIsEnumerable'', Leaf ''Object.prototype.propertyIsEnumerable''),
        (''toLocaleString'', Leaf ''Object.prototype.toLocaleString''),
        (''toString'', Leaf ''Object.prototype.toString''),
        (''valueOf'', Leaf ''Object.prototype.valueOf''),
        (''__defineGetter__'', Leaf ''Object.prototype.__defineGetter__''),
        (''__defineSetter__'', Leaf ''Object.prototype.__defineSetter__''),
        (''__lookupGetter__'', Leaf ''Object.prototype.__lookupGetter__''),
        (''__lookupSetter__'', Leaf ''Object.prototype.__lookupSetter__''),
        (''__proto__'', Leaf ''Object.prototype'')]"

text \<open>The registry written as an object literal \<^verbatim>\<open>{ name: component, ... }\<close>.\<close>

definition objectLiteral :: "(string \<rightharpoonup> ReactComponent) \<Rightarrow> ComponentsMap" where
  "objectLiteral entries = \<lparr>own = entries, inherited = objectPrototype\<rparr>"

text \<open>
  A React element as the JSX of \<^verbatim>\<open>getShape\<close> writes it: the component, the
  attributes spread into it, and the child elements between its tags.
\<close>

datatype element = Element ReactComponent ComponentProps "element list"

fun el_type :: "element \<Rightarrow> ReactComponent" where
  "el_type (Element t p ch) = t"

fun el_children :: "element \<Rightarrow> element list" where
  "el_children (Element t p ch) = ch"

section \<open>Prop routing (index.tsx, lines 14-35)\<close>

definition getFragmentProps :: "ReactComponent \<Rightarrow> ComponentProps \<Rightarrow> ComponentProps" where
  "getFragmentProps component props = (if component = Fragment then Map.empty else props)"

text \<open>\<^verbatim>\<open>c.toLowerCase()\<close> on one ASCII character.\<close>

definition toLowerCase :: "char \<Rightarrow> char" where
  "toLowerCase c =
     (case map_of (zip ''ABCDEFGHIJKLMNOPQRSTUVWXYZ'' ''abcdefghijklmnopqrstuvwxyz'') c of
        Some l \<Rightarrow> l
      | None \<Rightarrow> c)"

definition nameWithProps :: "string \<Rightarrow> string" where
  "nameWithProps componentName =
     map toLowerCase (take 1 componentName) @ drop 1 componentName @ ''Props''"

text \<open>
  \<^verbatim>\<open>componentID || componentName\<close> is truthy when one of the two strings is not empty.
\<close>

definition getMappedProps :: "string \<Rightarrow> string \<Rightarrow> ComponentProps \<Rightarrow> ComponentProps" where
  "getMappedProps componentID componentName props =
     (if componentID \<noteq> [] \<or> componentName \<noteq> [] then
        [''id'' \<mapsto> JStr componentID]
          ++ ownEntries (getProp props (nameWithProps componentName))
          ++ ownEntries (getProp props componentID)
      else props)"

section \<open>The shape builder (index.tsx, lines 38-70)\<close>

record ShapeKeys =
  containerID :: "string option"
  componentID :: "string option"
  containerName :: "string option"
  componentName :: "string option"

record ShapeSlots =
  Container :: "ReactComponent option"
  Content :: "ReactComponent option"
  Component :: "ReactComponent option"

text \<open>An absent or \<^verbatim>\<open>undefined\<close> field takes the default of the destructuring pattern.\<close>

definition orDefault :: "'a \<Rightarrow> 'a option \<Rightarrow> 'a" where
  "orDefault d v = (case v of None \<Rightarrow> d | Some x \<Rightarrow> x)"

definition getShape :: "ShapeKeys \<Rightarrow> ShapeSlots \<Rightarrow> ReactComponent" where
  "getShape keys slots =
     Shape (orDefault [] (containerID keys)) (orDefault [] (componentID keys))
           (orDefault [] (containerName keys)) (orDefault [] (componentName keys))
           (orDefault Fragment (Container slots)) (orDefault Fragment (Content slots))
           (orDefault Fragment (Component slots))"

text \<open>The body of the closure: what a shape returns when it is called with \<open>props\<close>.\<close>

definition shapeBody ::
  "string \<Rightarrow> string \<Rightarrow> string \<Rightarrow> string \<Rightarrow>
   ReactComponent \<Rightarrow> ReactComponent \<Rightarrow> ReactComponent \<Rightarrow> ComponentProps \<Rightarrow> element" where
  "shapeBody cntID cmpID cntName cmpName Cnt Con Cmp props =
     (let otherProps = getFragmentProps Con props;
          componentProps = getFragmentProps Cmp (getMappedProps cmpID cmpName props);
          containerProps = getFragmentProps Cnt (getMappedProps cntID cntName props)
      in Element Cnt containerProps [Element Con otherProps [], Element Cmp componentProps []])"

text \<open>Calling a component as the engine's own code can: only a shape is a function of the engine.\<close>

fun invoke :: "ReactComponent \<Rightarrow> ComponentProps \<Rightarrow> element option" where
  "invoke (Shape cntID cmpID cntName cmpName Cnt Con Cmp) props =
     Some (shapeBody cntID cmpID cntName cmpName Cnt Con Cmp props)"
| "invoke Fragment props = None"
| "invoke (Leaf n) props = None"

section \<open>The tree composer (index.tsx, lines 73-105)\<close>

datatype ComponentStructure =
  Node (node_id: string) (component: string) (children: "ComponentStructure list option")

type_synonym StructureType = "ComponentStructure list"

text \<open>
  Destructuring \<^verbatim>\<open>[next, ...other]\<close> of an empty array binds \<^verbatim>\<open>next\<close> to
  \<^verbatim>\<open>undefined\<close>, and reading \<^verbatim>\<open>next.children\<close> then throws a TypeError.
  A node is a container when its \<^verbatim>\<open>children\<close> field holds an array, empty or not
  (\<^verbatim>\<open>Array.isArray\<close>); the field is \<open>None\<close> when the node has none.  The
  children are composed before the shape of the node is built, so an error raised
  there leaves the whole composition.  The registry is read by
  \<^verbatim>\<open>components[next.component]\<close>, own entries and inherited members alike.
\<close>

datatype error = TypeError

function getRecursiveHOC ::
  "StructureType \<Rightarrow> ComponentsMap \<Rightarrow> ReactComponent \<Rightarrow> error + ReactComponent" where
  "getRecursiveHOC [] components Result = Inl TypeError"
| "getRecursiveHOC (Node nid ncomponent nchildren # other) components Result =
     (let isContainer = (nchildren \<noteq> None);
          NextComponent = readComponent components ncomponent
      in case (case nchildren of
                 Some ch \<Rightarrow>
                   (case getRecursiveHOC ch components Fragment of
                      Inl e \<Rightarrow> Inl e
                    | Inr inner \<Rightarrow>
                        Inr (Some (getShape
                          \<lparr>containerID = Some nid, componentID = None,
                           containerName = Some ncomponent, componentName = None\<rparr>
                          \<lparr>Container = NextComponent, Content = Some inner, Component = None\<rparr>)))
               | None \<Rightarrow> Inr NextComponent) of
           Inl e \<Rightarrow> Inl e
         | Inr Cmp \<Rightarrow>
             (let NextResult = getShape
                    (if isContainer
                     then \<lparr>containerID = None, componentID = None,
                           containerName = None, componentName = None\<rparr>
                     else \<lparr>containerID = None, componentID = Some nid,
                           containerName = None, componentName = Some ncomponent\<rparr>)
                    \<lparr>Container = None, Content = Some Result, Component = Cmp\<rparr>
              in if other \<noteq> [] then getRecursiveHOC other components NextResult
                 else Inr NextResult))"
  by pat_completeness auto

text \<open>
  Each recursive call is on the children of the head node or on the tail of the
  sibling list; both are smaller than the list itself.
\<close>

termination getRecursiveHOC
  by (relation "measure (\<lambda>(structure, components, Result). size_list size structure)") auto

section \<open>Rendering\<close>

text \<open>
  The rendering framework is outside the engine.  What it does with an element is
  modelled as far as the engine's units go: a fragment shows its children, a shape is
  called with the props of its element and the element it returns is rendered in turn,
  and a caller-supplied component is left opaque: the output records it with the props
  it received and the rendered children it was handed.  Children are kept beside the
  props, as the JSX writes them; the framework's own treatment of the attribute names
  \<^verbatim>\<open>key\<close>, \<^verbatim>\<open>ref\<close> and \<^verbatim>\<open>children\<close> is not part of the engine and is left out.
\<close>

datatype rendered = Rendered ReactComponent ComponentProps "rendered list"

fun csize :: "ReactComponent \<Rightarrow> nat" where
  "csize Fragment = 1"
| "csize (Leaf n) = 1"
| "csize (Shape cntID cmpID cntName cmpName Cnt Con Cmp) = 1 + csize Cnt + csize Con + csize Cmp"

fun esize :: "element \<Rightarrow> nat" where
  "esize (Element t p ch) = csize t + sum_list (map esize ch)"

function render :: "element \<Rightarrow> rendered" where
  "render (Element Fragment p ch) = Rendered Fragment p (map render ch)"
| "render (Element (Leaf n) p ch) = Rendered (Leaf n) p (map render ch)"
| "render (Element (Shape cntID cmpID cntName cmpName Cnt Con Cmp) p ch) =
     Rendered (Shape cntID cmpID cntName cmpName Cnt Con Cmp) p
       [render (shapeBody cntID cmpID cntName cmpName Cnt Con Cmp p)]"
  by pat_completeness auto

termination render
proof (relation "measure esize")
  show "wf (measure esize)" by simp
next
  fix p and ch :: "element list" and x
  assume "x \<in> set ch"
  then have "esize x \<le> sum_list (map esize ch)"
    by (intro member_le_sum_list) auto
  then show "(x, Element Fragment p ch) \<in> measure esize" by simp
next
  fix n p and ch :: "element list" and x
  assume "x \<in> set ch"
  then have "esize x \<le> sum_list (map esize ch)"
    by (intro member_le_sum_list) auto
  then show "(x, Element (Leaf n) p ch) \<in> measure esize" by simp
next
  fix cntID cmpID cntName cmpName Cnt Con Cmp p ch
  show "(shapeBody cntID cmpID cntName cmpName Cnt Con Cmp p,
         Element (Shape cntID cmpID cntName cmpName Cnt Con Cmp) p ch) \<in> measure esize"
    by (simp add: shapeBody_def)
qed

text \<open>
  What is seen of a rendered tree: fragments and shapes are transparent wrappers,
  the caller-supplied components remain, each around what is seen of its children.
\<close>

fun visible :: "rendered \<Rightarrow> rendered list" where
  "visible (Rendered Fragment p ch) = concat (map visible ch)"
| "visible (Rendered (Leaf n) p ch) = [Rendered (Leaf n) p (concat (map visible ch))]"
| "visible (Rendered (Shape cntID cmpID cntName cmpName Cnt Con Cmp) p ch) =
     concat (map visible ch)"

text \<open>The props of the caller-supplied components of a rendered tree, in document order.\<close>

fun received :: "rendered \<Rightarrow> ComponentProps list" where
  "received (Rendered t p ch) =
     (case t of Leaf n \<Rightarrow> [p] | _ \<Rightarrow> []) @ concat (map received ch)"

section \<open>The hierarchy in declaration order\<close>

text \<open>
  The reference the composed unit is compared with, written from the specification
  (``reproduces the full hierarchy in declaration order, at every depth''; ``lists
  \<open>a\<close>'s subtree before \<open>b\<close>'s before \<open>c\<close>'s''): every node in the order of
  the sibling list, shown by its registry entry with its routed props around its children.
  A node whose entry is the null renderable shows only its children; an entry that is
  itself a shape shows what that shape renders from the routed props.
\<close>

definition showNode ::
  "ReactComponent \<Rightarrow> ComponentProps \<Rightarrow> rendered list \<Rightarrow> rendered list" where
  "showNode C p kids =
     (case C of
        Fragment \<Rightarrow> kids
      | Leaf n \<Rightarrow> [Rendered (Leaf n) p kids]
      | Shape cntID cmpID cntName cmpName Cnt Con Cmp \<Rightarrow> visible (render (Element C p [])))"

fun mapRender :: "StructureType \<Rightarrow> ComponentsMap \<Rightarrow> ComponentProps \<Rightarrow> rendered list" where
  "mapRender [] components props = []"
| "mapRender (Node nid ncomponent nchildren # other) components props =
     showNode (orDefault Fragment (readComponent components ncomponent))
       (getMappedProps nid ncomponent props)
       (case nchildren of None \<Rightarrow> [] | Some ch \<Rightarrow> mapRender ch components props)
     @ mapRender other components props"




text \<open>All nodes of a structure, parents before children, siblings in list order.\<close>

fun nodes :: "StructureType \<Rightarrow> ComponentStructure list" where
  "nodes [] = []"
| "nodes (Node nid ncomponent nchildren # other) =
     Node nid ncomponent nchildren
       # (case nchildren of None \<Rightarrow> [] | Some ch \<Rightarrow> nodes ch) @ nodes other"

text \<open>Every sibling list of the structure, at every depth, has at least one node.\<close>

fun wellFormed :: "StructureType \<Rightarrow> bool" where
  "wellFormed [] = False"
| "wellFormed (Node nid ncomponent nchildren # other) =
     ((case nchildren of None \<Rightarrow> True | Some ch \<Rightarrow> wellFormed ch)
      \<and> (other = [] \<or> wellFormed other))"

text \<open>
  Every type name used in the structure is bound to a caller-supplied component: the
  registry read yields an opaque value for it.
\<close>

definition registered :: "StructureType \<Rightarrow> ComponentsMap \<Rightarrow> bool" where
  "registered structure components =
     list_all
       (\<lambda>n. case readComponent components (component n) of
               Some (Leaf name) \<Rightarrow> True
             | _ \<Rightarrow> False)
       (nodes structure)"

text \<open>Values whose spread copies nothing: \<^verbatim>\<open>undefined\<close>, \<^verbatim>\<open>null\<close>, booleans, numbers.\<close>

fun spreadsNothing :: "jsval \<Rightarrow> bool" where
  "spreadsNothing JUndefined = True"
| "spreadsNothing JNull = True"
| "spreadsNothing (JBool b) = True"
| "spreadsNothing (JNum n) = True"
| "spreadsNothing (JStr s) = False"
| "spreadsNothing (JArr xs) = False"
| "spreadsNothing (JObj m) = False"

text \<open>In a rendered tree, every shape, at every depth, was called with the props \<open>bag\<close>.\<close>

fun shapesGet :: "ComponentProps \<Rightarrow> rendered \<Rightarrow> bool" where
  "shapesGet bag (Rendered t p ch) =
     ((case t of Shape cntID cmpID cntName cmpName Cnt Con Cmp \<Rightarrow> p = bag | _ \<Rightarrow> True)
      \<and> list_all (shapesGet bag) ch)"

section \<open>An example\<close>

text \<open>The structure of the README's quick start, its registry, and a property bag.\<close>

definition STRUCTURE :: StructureType where
  "STRUCTURE =
     [Node ''firstInput'' ''TextInput'' None,
      Node ''horizontal'' ''HorizontalLine'' None,
      Node ''row'' ''Row''
        (Some [Node ''firstSwitch'' ''Switch'' None,
               Node ''vertical'' ''VerticalLine'' None,
               Node ''secondSwitch'' ''Switch'' None])]"

definition COMPONENTS :: ComponentsMap where
  "COMPONENTS =
     objectLiteral
       [''Row'' \<mapsto> Leaf ''Row'', ''Switch'' \<mapsto> Leaf ''Switch'',
        ''TextInput'' \<mapsto> Leaf ''TextInput'', ''VerticalLine'' \<mapsto> Leaf ''VerticalLine'',
        ''HorizontalLine'' \<mapsto> Leaf ''HorizontalLine'']"

definition formProps :: ComponentProps where
  "formProps =
     [''firstInput'' \<mapsto> JObj [''label'' \<mapsto> JStr ''First''],
      ''firstSwitch'' \<mapsto> JObj [''label'' \<mapsto> JStr ''Enable'', ''value'' \<mapsto> JBool False],
      ''switchProps'' \<mapsto> JObj [''value'' \<mapsto> JBool True]]"

text \<open>The unit that the composition of the example returns.\<close>

definition Form :: ReactComponent where
  "Form =
     Shape [] [] [] [] Fragment
       (Shape [] ''horizontal'' [] ''HorizontalLine'' Fragment
          (Shape [] ''firstInput'' [] ''TextInput'' Fragment Fragment (Leaf ''TextInput''))
          (Leaf ''HorizontalLine''))
       (Shape ''row'' [] ''Row'' [] (Leaf ''Row'')
          (Shape [] ''secondSwitch'' [] ''Switch'' Fragment
             (Shape [] ''vertical'' [] ''VerticalLine'' Fragment
                (Shape [] ''firstSwitch'' [] ''Switch'' Fragment Fragment (Leaf ''Switch''))
                (Leaf ''VerticalLine''))
             (Leaf ''Switch''))
          Fragment)"

text \<open>
  The end-to-end scenario of the specification: two nodes share the id \<open>b\<close> and the
  type \<open>Leaf\<close>.
\<close>

definition scenarioStructure :: StructureType where
  "scenarioStructure =
     [Node ''a'' ''Leaf'' None,
      Node ''row'' ''Box'' (Some [Node ''b'' ''Leaf'' None, Node ''b'' ''Leaf'' None])]"

definition scenarioComponents :: ComponentsMap where
  "scenarioComponents = objectLiteral [''Leaf'' \<mapsto> Leaf ''Leaf'', ''Box'' \<mapsto> Leaf ''Box'']"

definition scenarioProps :: ComponentProps where
  "scenarioProps =
     [''a'' \<mapsto> JObj [''v'' \<mapsto> JNum 1], ''b'' \<mapsto> JObj [''v'' \<mapsto> JNum 2],
      ''leafProps'' \<mapsto> JObj [''shared'' \<mapsto> JBool True]]"

definition scenarioUnit :: ReactComponent where
  "scenarioUnit =
     Shape [] [] [] [] Fragment
       (Shape [] ''a'' [] ''Leaf'' Fragment Fragment (Leaf ''Leaf''))
       (Shape ''row'' [] ''Box'' [] (Leaf ''Box'')
          (Shape [] ''b'' [] ''Leaf'' Fragment
             (Shape [] ''b'' [] ''Leaf'' Fragment Fragment (Leaf ''Leaf''))
             (Leaf ''Leaf''))
          Fragment)"

section \<open>Reading the registry\<close>

lemma readComponent_objectLiteral [simp]:
  "readComponent (objectLiteral entries) name =
     (case entries name of Some c \<Rightarrow> Some c | None \<Rightarrow> objectPrototype name)"
  by (simp add: readComponent_def objectLiteral_def split: option.split)

section \<open>Composition returns\<close>

lemma getRecursiveHOC_returns:
  "wellFormed s \<Longrightarrow> \<exists>U. getRecursiveHOC s components Result = Inr U"
proof (induction s components Result rule: getRecursiveHOC.induct)
  case (1 components Result)
  then show ?case by simp
next
  case (2 nid ncomponent nchildren other components Result)
  show ?case
  proof (cases nchildren)
    case None
    with 2 show ?thesis by (cases "other = []") simp_all
  next
    case (Some ch)
    with "2.prems" have "wellFormed ch" by simp
    with "2.IH"(1) [OF refl refl Some] obtain inner
      where inner: "getRecursiveHOC ch components Fragment = Inr inner" by blast
    show ?thesis
    proof (cases "other = []")
      case True
      with Some inner show ?thesis by simp
    next
      case False
      with "2.prems" have "wellFormed other" by simp
      with "2.IH"(2) Some inner False show ?thesis by simp
    qed
  qed
qed

text \<open>
  C10.  For every structure in which every sibling list, at every depth, is not empty,
  the composition returns a unit: it terminates, and not by the TypeError.  The two
  recursive calls are on the children of the head node and on the tail of the sibling
  list, and both are smaller than the list in the measure of the termination proof.
\<close>

theorem getRecursiveHOC_terminates:
  "(wellFormed s \<longrightarrow> (\<exists>U. getRecursiveHOC s components Result = Inr U))
   \<and> size_list size other < size_list size (Node nid ncomponent nchildren # other)
   \<and> (nchildren = Some ch \<longrightarrow>
        size_list size ch < size_list size (Node nid ncomponent nchildren # other))"
  using getRecursiveHOC_returns [of s components Result] by auto

theorem getRecursiveHOC_terminates_witness:
  "wellFormed [Node ''a'' ''Leaf'' None, Node ''row'' ''Box'' (Some [Node ''b'' ''Leaf'' None])]
   \<and> (\<exists>U. getRecursiveHOC
          [Node ''a'' ''Leaf'' None, Node ''row'' ''Box'' (Some [Node ''b'' ''Leaf'' None])]
          (objectLiteral [''Leaf'' \<mapsto> Leaf ''Leaf'', ''Box'' \<mapsto> Leaf ''Box'']) Fragment = Inr U)
   \<and> Some [Node ''b'' ''Leaf'' None] = Some [Node ''b'' ''Leaf'' None]
   \<and> size_list size [Node ''b'' ''Leaf'' None]
       < size_list size [Node ''row'' ''Box'' (Some [Node ''b'' ''Leaf'' None])]"
  using getRecursiveHOC_terminates
    [of "[Node ''a'' ''Leaf'' None, Node ''row'' ''Box'' (Some [Node ''b'' ''Leaf'' None])]"
        "objectLiteral [''Leaf'' \<mapsto> Leaf ''Leaf'', ''Box'' \<mapsto> Leaf ''Box'']" Fragment
        "[]" "''row''" "''Box''" "Some [Node ''b'' ''Leaf'' None]" "[Node ''b'' ''Leaf'' None]"]
  by simp

text \<open>
  C4.  The composition of an empty sibling list does not hand the accumulator back:
  it throws the TypeError, and so does the composition of a container whose children
  sequence is empty.
\<close>

theorem getRecursiveHOC_empty_raises:
  "getRecursiveHOC [] components Result = Inl TypeError
   \<and> getRecursiveHOC [Node ''row'' ''Row'' (Some [])] (objectLiteral [''Row'' \<mapsto> Leaf ''Row''])
         Fragment
       = Inl TypeError"
  by simp

section \<open>What a composed unit renders\<close>

lemma orDefault_simps [simp]:
  "orDefault d None = d"
  "orDefault d (Some x) = x"
  by (simp_all add: orDefault_def)

lemma getMappedProps_unaddressed [simp]: "getMappedProps [] [] props = props"
  by (simp add: getMappedProps_def)

lemma getFragmentProps_Fragment [simp]: "getFragmentProps Fragment props = Map.empty"
  by (simp add: getFragmentProps_def)

lemma getFragmentProps_Leaf [simp]: "getFragmentProps (Leaf n) props = props"
  by (simp add: getFragmentProps_def)

lemma getFragmentProps_Shape [simp]:
  "getFragmentProps (Shape cntID cmpID cntName cmpName Cnt Con Cmp) props = props"
  by (simp add: getFragmentProps_def)

lemma visible_slot:
  "visible (render (Element C (getFragmentProps C p) kids)) =
     showNode C p (concat (map (\<lambda>k. visible (render k)) kids))"
  by (cases C) (simp_all add: showNode_def comp_def)

lemma visible_shape:
  "visible (render (Element (Shape cntID cmpID cntName cmpName Cnt Con Cmp) p kids)) =
     showNode Cnt (getMappedProps cntID cntName p)
       (visible (render (Element Con (getFragmentProps Con p) []))
        @ showNode Cmp (getMappedProps cmpID cmpName p) [])"
  by (simp add: shapeBody_def visible_slot)

lemma getRecursiveHOC_Shape:
  "getRecursiveHOC s components Result = Inr U \<Longrightarrow>
   \<exists>cntID cmpID cntName cmpName Cnt Con Cmp. U = Shape cntID cmpID cntName cmpName Cnt Con Cmp"
proof (induction s components Result arbitrary: U rule: getRecursiveHOC.induct)
  case (1 components Result)
  then show ?case by simp
next
  case (2 nid ncomponent nchildren other components Result)
  then show ?case
    by (auto simp: getShape_def Let_def split: option.splits sum.splits if_splits)
qed

text \<open>
  The composed unit shows what the accumulator shows, followed by the nodes of the
  sibling list in declaration order.
\<close>

lemma render_getRecursiveHOC:
  "getRecursiveHOC s components Result = Inr U \<Longrightarrow>
   visible (render (Element U p [])) =
     visible (render (Element Result (getFragmentProps Result p) [])) @ mapRender s components p"
proof (induction s components Result arbitrary: U rule: getRecursiveHOC.induct)
  case (1 components Result)
  then show ?case by simp
next
  case (2 nid ncomponent nchildren other components Result)
  let ?C = "orDefault Fragment (readComponent components ncomponent)"
  show ?case
  proof (cases nchildren)
    case None
    let ?N = "Shape [] nid [] ncomponent Fragment Result ?C"
    have N: "visible (render (Element ?N p [])) =
        visible (render (Element Result (getFragmentProps Result p) []))
        @ mapRender [Node nid ncomponent nchildren] components p"
      using None by (simp add: visible_shape showNode_def del: render.simps)
    show ?thesis
    proof (cases "other = []")
      case True
      with None "2.prems" have "U = ?N"
        by (simp add: getShape_def)
      with N True show ?thesis by simp
    next
      case False
      with None "2.prems" have U: "getRecursiveHOC other components ?N = Inr U"
        by (simp add: getShape_def)
      have "visible (render (Element U p [])) =
              visible (render (Element ?N (getFragmentProps ?N p) []))
              @ mapRender other components p"
        using "2.IH"(2) [where x = "nchildren \<noteq> None" and xa = "readComponent components ncomponent"
            and b = "readComponent components ncomponent" and xaa = ?N and U = U] U None False
        by (simp add: getShape_def)
      with N show ?thesis by simp
    qed
  next
    case (Some ch)
    show ?thesis
    proof (cases "getRecursiveHOC ch components Fragment")
      case (Inl e)
      with Some "2.prems" show ?thesis by simp
    next
      case (Inr inner)
      let ?I = "Shape nid [] ncomponent [] ?C inner Fragment"
      let ?N = "Shape [] [] [] [] Fragment Result ?I"
      from getRecursiveHOC_Shape [OF Inr] have inner: "getFragmentProps inner p = p"
        by auto
      have kids: "visible (render (Element inner p [])) = mapRender ch components p"
        using "2.IH"(1) [OF refl refl Some Inr] by simp
      have N: "visible (render (Element ?N p [])) =
          visible (render (Element Result (getFragmentProps Result p) []))
          @ mapRender [Node nid ncomponent nchildren] components p"
        using Some kids inner by (simp add: visible_shape showNode_def del: render.simps)
      show ?thesis
      proof (cases "other = []")
        case True
        with Some Inr "2.prems" have "U = ?N"
          by (simp add: getShape_def)
        with N True show ?thesis by simp
      next
        case False
        with Some Inr "2.prems" have U: "getRecursiveHOC other components ?N = Inr U"
          by (simp add: getShape_def)
        have "visible (render (Element U p [])) =
                visible (render (Element ?N (getFragmentProps ?N p) []))
                @ mapRender other components p"
          using "2.IH"(2) [where x = "nchildren \<noteq> None" and xa = "readComponent components ncomponent"
              and b = "Some ?I" and xaa = ?N and U = U] U Some Inr False
          by (simp add: getShape_def)
        with N show ?thesis by simp
      qed
    qed
  qed
qed

lemma mapRender_append:
  "mapRender (xs @ ys) components p = mapRender xs components p @ mapRender ys components p"
  by (induction xs components p rule: mapRender.induct) simp_all

text \<open>
  C2.  A shape puts the Content slot before the Component slot among the children of
  its Container.  The unit composed from a structure shows, for every property bag,
  the nodes of every sibling list in declaration order, each around its own children in
  their declaration order; for three siblings: the subtree of the first, then that of
  the second, then that of the third.
\<close>

theorem order_preservation:
  "(\<exists>e. invoke (getShape keys slots) props = Some e
        \<and> map el_type (el_children e) =
            [orDefault Fragment (Content slots), orDefault Fragment (Component slots)])
   \<and> (getRecursiveHOC s components Fragment = Inr U \<longrightarrow>
        visible (render (Element U props [])) = mapRender s components props)
   \<and> (getRecursiveHOC [a, b, c] components Fragment = Inr V \<longrightarrow>
        visible (render (Element V props [])) =
          mapRender [a] components props @ mapRender [b] components props
          @ mapRender [c] components props)"
proof (intro conjI impI)
  show "\<exists>e. invoke (getShape keys slots) props = Some e
        \<and> map el_type (el_children e) =
            [orDefault Fragment (Content slots), orDefault Fragment (Component slots)]"
    by (simp add: getShape_def shapeBody_def)
next
  assume "getRecursiveHOC s components Fragment = Inr U"
  from render_getRecursiveHOC [OF this, of props]
  show "visible (render (Element U props [])) = mapRender s components props"
    by simp
next
  assume "getRecursiveHOC [a, b, c] components Fragment = Inr V"
  from render_getRecursiveHOC [OF this, of props]
  have "visible (render (Element V props [])) = mapRender ([a] @ [b] @ [c]) components props"
    by simp
  then show "visible (render (Element V props [])) =
      mapRender [a] components props @ mapRender [b] components props
      @ mapRender [c] components props"
    by (simp only: mapRender_append)
qed

lemma Form_composed: "getRecursiveHOC STRUCTURE COMPONENTS Fragment = Inr Form"
  by (simp add: STRUCTURE_def COMPONENTS_def Form_def getShape_def)

theorem order_preservation_witness:
  "getRecursiveHOC STRUCTURE COMPONENTS Fragment = Inr Form
   \<and> getRecursiveHOC
         [Node ''firstInput'' ''TextInput'' None, Node ''horizontal'' ''HorizontalLine'' None,
          Node ''row'' ''Row''
            (Some [Node ''firstSwitch'' ''Switch'' None, Node ''vertical'' ''VerticalLine'' None,
                   Node ''secondSwitch'' ''Switch'' None])]
         COMPONENTS Fragment = Inr Form
   \<and> visible (render (Element Form formProps [])) =
       [Rendered (Leaf ''TextInput'')
          [''id'' \<mapsto> JStr ''firstInput'', ''label'' \<mapsto> JStr ''First''] [],
        Rendered (Leaf ''HorizontalLine'') [''id'' \<mapsto> JStr ''horizontal''] [],
        Rendered (Leaf ''Row'') [''id'' \<mapsto> JStr ''row'']
          [Rendered (Leaf ''Switch'')
             [''id'' \<mapsto> JStr ''firstSwitch'', ''label'' \<mapsto> JStr ''Enable'',
              ''value'' \<mapsto> JBool False] [],
           Rendered (Leaf ''VerticalLine'') [''id'' \<mapsto> JStr ''vertical''] [],
           Rendered (Leaf ''Switch'')
             [''id'' \<mapsto> JStr ''secondSwitch'', ''value'' \<mapsto> JBool True] []]]"
proof -
  have composed: "getRecursiveHOC STRUCTURE COMPONENTS Fragment = Inr Form"
    by (rule Form_composed)
  have shown: "mapRender STRUCTURE COMPONENTS formProps =
       [Rendered (Leaf ''TextInput'')
          [''id'' \<mapsto> JStr ''firstInput'', ''label'' \<mapsto> JStr ''First''] [],
        Rendered (Leaf ''HorizontalLine'') [''id'' \<mapsto> JStr ''horizontal''] [],
        Rendered (Leaf ''Row'') [''id'' \<mapsto> JStr ''row'']
          [Rendered (Leaf ''Switch'')
             [''id'' \<mapsto> JStr ''firstSwitch'', ''label'' \<mapsto> JStr ''Enable'',
              ''value'' \<mapsto> JBool False] [],
           Rendered (Leaf ''VerticalLine'') [''id'' \<mapsto> JStr ''vertical''] [],
           Rendered (Leaf ''Switch'')
             [''id'' \<mapsto> JStr ''secondSwitch'', ''value'' \<mapsto> JBool True] []]]"
    by (simp add: STRUCTURE_def COMPONENTS_def formProps_def showNode_def getMappedProps_def
        getProp_def nameWithProps_def toLowerCase_def)
  from order_preservation [where s = STRUCTURE and components = COMPONENTS and U = Form
      and props = formProps] composed
  have "visible (render (Element Form formProps [])) = mapRender STRUCTURE COMPONENTS formProps"
    by blast
  with composed shown show ?thesis by (simp add: STRUCTURE_def)
qed

section \<open>Prop routing\<close>

text \<open>
  C1 (as amended).  For a node with id \<open>X\<close> and type \<open>T\<close>, one of them not empty,
  the routed props are the merge of \<open>{id: X}\<close>, then the entries of the bag's value at
  the key \<open>lowerFirst(T) + "Props"\<close>, then the entries of the bag's value at the key
  \<open>X\<close>, a later one overwriting an earlier one: a key is read from the id-scoped
  entries first, then from the type-scoped ones, then from the \<open>id\<close> field.  When
  moreover \<open>X\<close> is not the type-scoped key itself, the bag
  \<open>{[lowerFirst(T) + "Props"]: {a: 1, b: 1}, [X]: {b: 2, c: 3}}\<close> is routed to
  \<open>{id: X, a: 1, b: 2, c: 3}\<close>.
\<close>

theorem routing_precedence:
  "(X \<noteq> [] \<or> T \<noteq> [] \<longrightarrow>
      getMappedProps X T props k =
        (case ownEntries (getProp props X) k of
           Some v \<Rightarrow> Some v
         | None \<Rightarrow>
             (case ownEntries (getProp props (nameWithProps T)) k of
                Some v \<Rightarrow> Some v
              | None \<Rightarrow> if k = ''id'' then Some (JStr X) else None)))
   \<and> ((X \<noteq> [] \<or> T \<noteq> []) \<and> X \<noteq> nameWithProps T \<longrightarrow>
        getMappedProps X T
          [nameWithProps T \<mapsto> JObj [''a'' \<mapsto> JNum 1, ''b'' \<mapsto> JNum 1],
           X \<mapsto> JObj [''b'' \<mapsto> JNum 2, ''c'' \<mapsto> JNum 3]]
        = [''id'' \<mapsto> JStr X, ''a'' \<mapsto> JNum 1, ''b'' \<mapsto> JNum 2, ''c'' \<mapsto> JNum 3])"
proof (intro conjI impI)
  assume "X \<noteq> [] \<or> T \<noteq> []"
  then show "getMappedProps X T props k =
        (case ownEntries (getProp props X) k of
           Some v \<Rightarrow> Some v
         | None \<Rightarrow>
             (case ownEntries (getProp props (nameWithProps T)) k of
                Some v \<Rightarrow> Some v
              | None \<Rightarrow> if k = ''id'' then Some (JStr X) else None))"
    by (auto simp: getMappedProps_def map_add_def split: option.splits)
next
  assume "(X \<noteq> [] \<or> T \<noteq> []) \<and> X \<noteq> nameWithProps T"
  then show "getMappedProps X T
          [nameWithProps T \<mapsto> JObj [''a'' \<mapsto> JNum 1, ''b'' \<mapsto> JNum 1],
           X \<mapsto> JObj [''b'' \<mapsto> JNum 2, ''c'' \<mapsto> JNum 3]]
        = [''id'' \<mapsto> JStr X, ''a'' \<mapsto> JNum 1, ''b'' \<mapsto> JNum 2, ''c'' \<mapsto> JNum 3]"
    by (auto simp: getMappedProps_def getProp_def)
qed

theorem routing_precedence_witness:
  "''x'' \<noteq> [] \<and> ''x'' \<noteq> nameWithProps ''Switch''
   \<and> getMappedProps ''x'' ''Switch''
        [''switchProps'' \<mapsto> JObj [''a'' \<mapsto> JNum 1, ''b'' \<mapsto> JNum 1],
         ''x'' \<mapsto> JObj [''b'' \<mapsto> JNum 2, ''c'' \<mapsto> JNum 3]]
       = [''id'' \<mapsto> JStr ''x'', ''a'' \<mapsto> JNum 1, ''b'' \<mapsto> JNum 2, ''c'' \<mapsto> JNum 3]
   \<and> getMappedProps ''x'' ''Switch''
        [''switchProps'' \<mapsto> JObj [''a'' \<mapsto> JNum 1, ''b'' \<mapsto> JNum 1],
         ''x'' \<mapsto> JObj [''b'' \<mapsto> JNum 2, ''c'' \<mapsto> JNum 3]] ''b'' = Some (JNum 2)"
proof -
  have name: "nameWithProps ''Switch'' = ''switchProps''"
    by (simp add: nameWithProps_def toLowerCase_def)
  have active: "(''x'' \<noteq> [] \<or> ''Switch'' \<noteq> []) \<and> ''x'' \<noteq> nameWithProps ''Switch''"
    by (simp add: name)
  from routing_precedence [of "''x''" "''Switch''"
      "[''switchProps'' \<mapsto> JObj [''a'' \<mapsto> JNum 1, ''b'' \<mapsto> JNum 1],
        ''x'' \<mapsto> JObj [''b'' \<mapsto> JNum 2, ''c'' \<mapsto> JNum 3]]" "''b''"] active
  show ?thesis by (simp add: name getProp_def)
qed

text \<open>
  The claim as it is written fails for a node whose id and type are both the empty
  string (the bag comes back unchanged, with no \<open>id\<close> field), and its example fails
  when the id is the type-scoped key itself (the object literal then has one key, and
  \<open>a\<close> is lost).
\<close>

theorem routing_precedence_counterexample:
  "getMappedProps [] []
      [nameWithProps [] \<mapsto> JObj [''a'' \<mapsto> JNum 1, ''b'' \<mapsto> JNum 1],
       [] \<mapsto> JObj [''b'' \<mapsto> JNum 2, ''c'' \<mapsto> JNum 3]]
     \<noteq> [''id'' \<mapsto> JStr [], ''a'' \<mapsto> JNum 1, ''b'' \<mapsto> JNum 2, ''c'' \<mapsto> JNum 3]
   \<and> getMappedProps ''fooProps'' ''Foo''
      [nameWithProps ''Foo'' \<mapsto> JObj [''a'' \<mapsto> JNum 1, ''b'' \<mapsto> JNum 1],
       ''fooProps'' \<mapsto> JObj [''b'' \<mapsto> JNum 2, ''c'' \<mapsto> JNum 3]]
     \<noteq> [''id'' \<mapsto> JStr ''fooProps'', ''a'' \<mapsto> JNum 1, ''b'' \<mapsto> JNum 2, ''c'' \<mapsto> JNum 3]"
proof (intro conjI notI)
  assume "getMappedProps [] []
      [nameWithProps [] \<mapsto> JObj [''a'' \<mapsto> JNum 1, ''b'' \<mapsto> JNum 1],
       [] \<mapsto> JObj [''b'' \<mapsto> JNum 2, ''c'' \<mapsto> JNum 3]]
     = [''id'' \<mapsto> JStr [], ''a'' \<mapsto> JNum 1, ''b'' \<mapsto> JNum 2, ''c'' \<mapsto> JNum 3]"
  from fun_cong [OF this, of "''id''"] show False
    by (simp add: nameWithProps_def)
next
  assume "getMappedProps ''fooProps'' ''Foo''
      [nameWithProps ''Foo'' \<mapsto> JObj [''a'' \<mapsto> JNum 1, ''b'' \<mapsto> JNum 1],
       ''fooProps'' \<mapsto> JObj [''b'' \<mapsto> JNum 2, ''c'' \<mapsto> JNum 3]]
     = [''id'' \<mapsto> JStr ''fooProps'', ''a'' \<mapsto> JNum 1, ''b'' \<mapsto> JNum 2, ''c'' \<mapsto> JNum 3]"
  from fun_cong [OF this, of "''a''"] show False
    by (simp add: getMappedProps_def getProp_def nameWithProps_def toLowerCase_def)
qed

text \<open>
  C5 (as amended).  With routing active, a value at the type-scoped or at the id-scoped
  key that is \<open>undefined\<close>, \<open>null\<close>, a boolean or a number is skipped: the routed
  props are those of the bag without that key.  Routing never raises: it is a total
  function of its three inputs.  The keys of the routed props are \<open>id\<close> and the own
  keys of the two values; a string or an array is not skipped, it has one own key per
  index.
\<close>

theorem malformed_entries:
  "((X \<noteq> [] \<or> T \<noteq> []) \<and> spreadsNothing v \<and> (k = nameWithProps T \<or> k = X) \<longrightarrow>
      getMappedProps X T (props(k \<mapsto> v)) = getMappedProps X T (props(k := None)))
   \<and> (X \<noteq> [] \<or> T \<noteq> [] \<longrightarrow>
        dom (getMappedProps X T props) =
          {''id''} \<union> dom (ownEntries (getProp props (nameWithProps T)))
            \<union> dom (ownEntries (getProp props X)))
   \<and> dom (ownEntries (JStr str)) = showNat ` {..<length str}
   \<and> dom (ownEntries (JArr xs)) = showNat ` {..<length xs}"
proof (intro conjI impI)
  assume a: "(X \<noteq> [] \<or> T \<noteq> []) \<and> spreadsNothing v \<and> (k = nameWithProps T \<or> k = X)"
  then have v: "ownEntries v = Map.empty" by (cases v) simp_all
  have other: "\<And>k'. k' \<noteq> k \<Longrightarrow> getProp (props(k \<mapsto> v)) k' = getProp (props(k := None)) k'"
    by (simp add: getProp_def)
  have here: "ownEntries (getProp (props(k \<mapsto> v)) k) = ownEntries (getProp (props(k := None)) k)"
    by (simp add: getProp_def v)
  have "ownEntries (getProp (props(k \<mapsto> v)) k') = ownEntries (getProp (props(k := None)) k')"
    for k'
    using other [of k'] here by (cases "k' = k") simp_all
  with a show "getMappedProps X T (props(k \<mapsto> v)) = getMappedProps X T (props(k := None))"
    by (simp add: getMappedProps_def)
next
  assume "X \<noteq> [] \<or> T \<noteq> []"
  then show "dom (getMappedProps X T props) =
          {''id''} \<union> dom (ownEntries (getProp props (nameWithProps T)))
            \<union> dom (ownEntries (getProp props X))"
    by (auto simp: getMappedProps_def)
next
  show "dom (ownEntries (JStr str)) = showNat ` {..<length str}"
    by (simp add: dom_map_of_zip atLeast0LessThan)
next
  show "dom (ownEntries (JArr xs)) = showNat ` {..<length xs}"
    by (simp add: dom_map_of_zip atLeast0LessThan)
qed

theorem malformed_entries_witness:
  "''x'' \<noteq> [] \<and> spreadsNothing (JNum 7)
   \<and> getMappedProps ''x'' ''Switch'' [''switchProps'' \<mapsto> JObj [''a'' \<mapsto> JNum 1], ''x'' \<mapsto> JNum 7]
       = [''id'' \<mapsto> JStr ''x'', ''a'' \<mapsto> JNum 1]
   \<and> dom (getMappedProps ''x'' ''Switch''
            [''switchProps'' \<mapsto> JObj [''a'' \<mapsto> JNum 1], ''x'' \<mapsto> JNum 7]) = {''id'', ''a''}"
proof -
  have name: "nameWithProps ''Switch'' = ''switchProps''"
    by (simp add: nameWithProps_def toLowerCase_def)
  have absent: "getMappedProps ''x'' ''Switch''
      ([''switchProps'' \<mapsto> JObj [''a'' \<mapsto> JNum 1]](''x'' := None))
       = [''id'' \<mapsto> JStr ''x'', ''a'' \<mapsto> JNum 1]"
    by (simp add: getMappedProps_def getProp_def name)
  from malformed_entries [of "''x''" "''Switch''" "JNum 7" "''x''"
      "[''switchProps'' \<mapsto> JObj [''a'' \<mapsto> JNum 1]]"]
  have eq: "getMappedProps ''x'' ''Switch''
         [''switchProps'' \<mapsto> JObj [''a'' \<mapsto> JNum 1], ''x'' \<mapsto> JNum 7]
       = getMappedProps ''x'' ''Switch''
           ([''switchProps'' \<mapsto> JObj [''a'' \<mapsto> JNum 1]](''x'' := None))"
    by simp
  show ?thesis
    unfolding eq absent by auto
qed

text \<open>
  The claim as it is written fails for a string: it is not a mapping, and it is not
  skipped.  The value \<open>"hi"\<close> at the id-scoped key is spread into the keys \<open>0\<close> and
  \<open>1\<close>, so the routed props differ from those of the bag without the entry.
\<close>

theorem malformed_entries_counterexample:
  "getMappedProps ''x'' ''Switch'' [''x'' \<mapsto> JStr ''hi'']
     = [''id'' \<mapsto> JStr ''x'', ''0'' \<mapsto> JStr ''h'', ''1'' \<mapsto> JStr ''i'']
   \<and> getMappedProps ''x'' ''Switch'' Map.empty = [''id'' \<mapsto> JStr ''x'']
   \<and> getMappedProps ''x'' ''Switch'' [''x'' \<mapsto> JStr ''hi'']
       \<noteq> getMappedProps ''x'' ''Switch'' Map.empty"
proof (intro conjI notI)
  show hi: "getMappedProps ''x'' ''Switch'' [''x'' \<mapsto> JStr ''hi'']
     = [''id'' \<mapsto> JStr ''x'', ''0'' \<mapsto> JStr ''h'', ''1'' \<mapsto> JStr ''i'']"
    by (rule ext)
      (simp add: getMappedProps_def getProp_def nameWithProps_def toLowerCase_def
        showNat.simps upt_rec)
  show none: "getMappedProps ''x'' ''Switch'' Map.empty = [''id'' \<mapsto> JStr ''x'']"
    by (simp add: getMappedProps_def getProp_def)
  assume "getMappedProps ''x'' ''Switch'' [''x'' \<mapsto> JStr ''hi'']
       = getMappedProps ''x'' ''Switch'' Map.empty"
  from fun_cong [OF this, of "''0''"] show False
    unfolding hi none by simp
qed

section \<open>The slots of a shape\<close>

text \<open>
  C7.  Whatever the addressing keys and the property bag, a shape hands the empty
  property bag to each of its three slots that is bound to the null renderable, also
  when the slot is the null renderable by default.
\<close>

theorem null_renderable_isolation:
  "\<exists>pc po pm.
      invoke (getShape keys slots) props =
        Some (Element (orDefault Fragment (Container slots)) pc
                [Element (orDefault Fragment (Content slots)) po [],
                 Element (orDefault Fragment (Component slots)) pm []])
      \<and> (orDefault Fragment (Container slots) = Fragment \<longrightarrow> pc = Map.empty)
      \<and> (orDefault Fragment (Content slots) = Fragment \<longrightarrow> po = Map.empty)
      \<and> (orDefault Fragment (Component slots) = Fragment \<longrightarrow> pm = Map.empty)"
  by (simp add: getShape_def shapeBody_def)

theorem null_renderable_isolation_witness:
  "orDefault Fragment (Container \<lparr>Container = None, Content = Some Fragment, Component = None\<rparr>)
     = Fragment
   \<and> invoke (getShape
        \<lparr>containerID = Some ''row'', componentID = Some ''x'',
         containerName = Some ''Row'', componentName = Some ''Switch''\<rparr>
        \<lparr>Container = None, Content = Some Fragment, Component = None\<rparr>)
        [''x'' \<mapsto> JObj [''a'' \<mapsto> JNum 1], ''row'' \<mapsto> JObj [''b'' \<mapsto> JNum 2]]
     = Some (Element Fragment Map.empty
               [Element Fragment Map.empty [], Element Fragment Map.empty []])"
  using null_renderable_isolation
    [of "\<lparr>containerID = Some ''row'', componentID = Some ''x'',
          containerName = Some ''Row'', componentName = Some ''Switch''\<rparr>"
        "\<lparr>Container = None, Content = Some Fragment, Component = None\<rparr>"
        "[''x'' \<mapsto> JObj [''a'' \<mapsto> JNum 1], ''row'' \<mapsto> JObj [''b'' \<mapsto> JNum 2]]"]
  by auto

lemma registered_Cons:
  "registered (Node nid ncomponent nchildren # other) components =
     ((\<exists>name. readComponent components ncomponent = Some (Leaf name))
      \<and> (case nchildren of None \<Rightarrow> True | Some ch \<Rightarrow> registered ch components)
      \<and> registered other components)"
  by (auto simp: registered_def split: option.splits ReactComponent.splits)

text \<open>
  Every shape of a composed unit is called with the bag the unit is called with,
  when this holds of the accumulator the composition starts from.
\<close>

lemma shapesGet_getRecursiveHOC:
  "getRecursiveHOC s components Result = Inr U \<Longrightarrow> registered s components \<Longrightarrow>
   shapesGet p (render (Element Result (getFragmentProps Result p) [])) \<Longrightarrow>
   shapesGet p (render (Element U p []))"
proof (induction s components Result arbitrary: U rule: getRecursiveHOC.induct)
  case (1 components Result)
  then show ?case by simp
next
  case (2 nid ncomponent nchildren other components Result)
  from "2.prems"(2) obtain name
    where name: "readComponent components ncomponent = Some (Leaf name)"
    and other: "registered other components"
    by (auto simp: registered_Cons)
  show ?case
  proof (cases nchildren)
    case None
    let ?N = "Shape [] nid [] ncomponent Fragment Result (Leaf name)"
    have N: "shapesGet p (render (Element ?N p []))"
      using "2.prems"(3) by (simp add: shapeBody_def)
    show ?thesis
    proof (cases "other = []")
      case True
      with None name "2.prems"(1) have "U = ?N"
        by (simp add: getShape_def)
      with N show ?thesis by simp
    next
      case False
      with None name "2.prems"(1) have U: "getRecursiveHOC other components ?N = Inr U"
        by (simp add: getShape_def)
      show ?thesis
        using "2.IH"(2) [where x = "nchildren \<noteq> None" and xa = "readComponent components ncomponent"
            and b = "readComponent components ncomponent" and xaa = ?N and U = U] U None False name other N
        by (simp add: getShape_def del: render.simps)
    qed
  next
    case (Some ch)
    from "2.prems"(2) Some have ch: "registered ch components"
      by (simp add: registered_Cons)
    show ?thesis
    proof (cases "getRecursiveHOC ch components Fragment")
      case (Inl e)
      with Some "2.prems"(1) show ?thesis by simp
    next
      case (Inr inner)
      let ?I = "Shape nid [] ncomponent [] (Leaf name) inner Fragment"
      let ?N = "Shape [] [] [] [] Fragment Result ?I"
      from getRecursiveHOC_Shape [OF Inr] have inner: "getFragmentProps inner p = p"
        by auto
      have kids: "shapesGet p (render (Element inner p []))"
        using "2.IH"(1) [OF refl refl Some Inr ch] by simp
      have N: "shapesGet p (render (Element ?N p []))"
        using "2.prems"(3) kids inner by (simp add: shapeBody_def)
      show ?thesis
      proof (cases "other = []")
        case True
        with Some Inr name "2.prems"(1) have "U = ?N"
          by (simp add: getShape_def)
        with N show ?thesis by simp
      next
        case False
        with Some Inr name "2.prems"(1) have U: "getRecursiveHOC other components ?N = Inr U"
          by (simp add: getShape_def)
        show ?thesis
          using "2.IH"(2) [where x = "nchildren \<noteq> None" and xa = "readComponent components ncomponent"
              and b = "Some ?I" and xaa = ?N and U = U] U Some Inr False name other N
          by (simp add: getShape_def del: render.simps)
      qed
    qed
  qed
qed

text \<open>
  C3 (as amended).  With neither an id nor a type name, routing returns the bag
  unchanged.  A shape hands its Content slot exactly the props it was called with,
  unless the slot is bound to the null renderable, which receives the empty props.
  In the unit composed from a structure whose types are all bound to caller-supplied
  components, every shape at every depth is called with the bag the unit was called
  with, so that this one bag reaches every such Content slot at every depth.
\<close>

theorem content_pass_through:
  "getMappedProps [] [] props = props
   \<and> (\<exists>pc po pm.
        invoke (Shape cntID cmpID cntName cmpName Cnt Con Cmp) props =
          Some (Element Cnt pc [Element Con po [], Element Cmp pm []])
        \<and> (Con \<noteq> Fragment \<longrightarrow> po = props) \<and> (Con = Fragment \<longrightarrow> po = Map.empty))
   \<and> (getRecursiveHOC s components Fragment = Inr U \<and> registered s components \<longrightarrow>
        shapesGet props (render (Element U props [])))"
proof (intro conjI impI)
  show "getMappedProps [] [] props = props" by simp
next
  show "\<exists>pc po pm.
        invoke (Shape cntID cmpID cntName cmpName Cnt Con Cmp) props =
          Some (Element Cnt pc [Element Con po [], Element Cmp pm []])
        \<and> (Con \<noteq> Fragment \<longrightarrow> po = props) \<and> (Con = Fragment \<longrightarrow> po = Map.empty)"
    by (simp add: shapeBody_def getFragmentProps_def)
next
  assume "getRecursiveHOC s components Fragment = Inr U \<and> registered s components"
  then show "shapesGet props (render (Element U props []))"
    using shapesGet_getRecursiveHOC [of s components Fragment U props] by simp
qed

theorem content_pass_through_witness:
  "Shape [] ''firstInput'' [] ''TextInput'' Fragment Fragment (Leaf ''TextInput'') \<noteq> Fragment
   \<and> invoke (Shape [] ''horizontal'' [] ''HorizontalLine'' Fragment
          (Shape [] ''firstInput'' [] ''TextInput'' Fragment Fragment (Leaf ''TextInput''))
          (Leaf ''HorizontalLine'')) formProps
     = Some (Element Fragment Map.empty
         [Element (Shape [] ''firstInput'' [] ''TextInput'' Fragment Fragment (Leaf ''TextInput''))
            formProps [],
          Element (Leaf ''HorizontalLine'') [''id'' \<mapsto> JStr ''horizontal''] []])
   \<and> getRecursiveHOC STRUCTURE COMPONENTS Fragment = Inr Form
   \<and> registered STRUCTURE COMPONENTS
   \<and> shapesGet formProps (render (Element Form formProps []))"
proof -
  have reg: "registered STRUCTURE COMPONENTS"
    by (simp add: registered_def STRUCTURE_def COMPONENTS_def)
  have routed: "getMappedProps ''horizontal'' ''HorizontalLine'' formProps
      = [''id'' \<mapsto> JStr ''horizontal'']"
    by (simp add: getMappedProps_def getProp_def formProps_def nameWithProps_def toLowerCase_def)
  from content_pass_through [of formProps "[]" "''horizontal''" "[]" "''HorizontalLine''"
      Fragment "Shape [] ''firstInput'' [] ''TextInput'' Fragment Fragment (Leaf ''TextInput'')"
      "Leaf ''HorizontalLine''" STRUCTURE COMPONENTS Form] Form_composed reg
  show ?thesis
    by (simp add: shapeBody_def routed)
qed

text \<open>
  The claim as it is written fails at the first sibling of every list: the Content
  slot of its shape is the null renderable, and it receives the empty props, not the bag.
\<close>

theorem content_pass_through_counterexample:
  "getRecursiveHOC [Node ''a'' ''Leaf'' None] (objectLiteral [''Leaf'' \<mapsto> Leaf ''Leaf'']) Fragment
     = Inr (Shape [] ''a'' [] ''Leaf'' Fragment Fragment (Leaf ''Leaf''))
   \<and> invoke (Shape [] ''a'' [] ''Leaf'' Fragment Fragment (Leaf ''Leaf'')) [''a'' \<mapsto> JNull]
     = Some (Element Fragment Map.empty
               [Element Fragment Map.empty [], Element (Leaf ''Leaf'') [''id'' \<mapsto> JStr ''a''] []])
   \<and> [''a'' \<mapsto> JNull] \<noteq> Map.empty"
  by (simp add: getShape_def shapeBody_def getMappedProps_def getProp_def)

section \<open>What each node receives\<close>

lemma concat_map_of_concat:
  "concat (map f (concat xss)) = concat (map (\<lambda>xs. concat (map f xs)) xss)"
  by (induction xss) simp_all

lemma received_visible: "concat (map received (visible r)) = received r"
proof (induction r rule: visible.induct)
  case (1 p ch)
  then have eq: "map (\<lambda>x. concat (map received (visible x))) ch = map received ch"
    by (intro map_cong) simp_all
  show ?case by (simp add: concat_map_of_concat comp_def eq)
next
  case (2 n p ch)
  then have eq: "map (\<lambda>x. concat (map received (visible x))) ch = map received ch"
    by (intro map_cong) simp_all
  show ?case by (simp add: concat_map_of_concat comp_def eq)
next
  case (3 cntID cmpID cntName cmpName Cnt Con Cmp p ch)
  then have eq: "map (\<lambda>x. concat (map received (visible x))) ch = map received ch"
    by (intro map_cong) simp_all
  show ?case by (simp add: concat_map_of_concat comp_def eq)
qed

lemma received_mapRender:
  "registered s components \<Longrightarrow>
   concat (map received (mapRender s components p)) =
     map (\<lambda>n. getMappedProps (node_id n) (component n) p) (nodes s)"
proof (induction s components p rule: mapRender.induct)
  case (1 components props)
  then show ?case by simp
next
  case (2 nid ncomponent nchildren other components props)
  from "2.prems" obtain name
    where name: "readComponent components ncomponent = Some (Leaf name)"
    and other: "registered other components"
    by (auto simp: registered_Cons)
  show ?case
  proof (cases nchildren)
    case None
    with 2 name other show ?thesis by (simp add: showNode_def)
  next
    case (Some ch)
    with "2.prems" have "registered ch components" by (simp add: registered_Cons)
    with 2 Some name other show ?thesis by (simp add: showNode_def)
  qed
qed

lemma received_getRecursiveHOC:
  assumes "getRecursiveHOC s components Fragment = Inr U" and "registered s components"
  shows "received (render (Element U p [])) =
           map (\<lambda>n. getMappedProps (node_id n) (component n) p) (nodes s)"
proof -
  have "received (render (Element U p [])) =
          concat (map received (visible (render (Element U p []))))"
    by (simp only: received_visible)
  also have "\<dots> = concat (map received (mapRender s components p))"
    using render_getRecursiveHOC [OF assms(1), of p] by simp
  finally show ?thesis
    using received_mapRender [OF assms(2)] by simp
qed

text \<open>
  C8 (as amended).  In the unit composed from a structure whose types are all bound to
  caller-supplied components, each node receives the props routed by its id and its
  type.  Two nodes anywhere in the tree that share the id and the type name receive
  identical props, for every property bag.
\<close>

theorem id_sharing_broadcast:
  "getRecursiveHOC s components Fragment = Inr U \<and> registered s components
   \<and> i < length (nodes s) \<and> j < length (nodes s)
   \<and> node_id (nodes s ! i) = node_id (nodes s ! j)
   \<and> component (nodes s ! i) = component (nodes s ! j) \<longrightarrow>
     length (received (render (Element U props []))) = length (nodes s)
     \<and> received (render (Element U props [])) ! i =
         getMappedProps (node_id (nodes s ! i)) (component (nodes s ! i)) props
     \<and> received (render (Element U props [])) ! i = received (render (Element U props [])) ! j"
proof
  assume a: "getRecursiveHOC s components Fragment = Inr U \<and> registered s components
   \<and> i < length (nodes s) \<and> j < length (nodes s)
   \<and> node_id (nodes s ! i) = node_id (nodes s ! j)
   \<and> component (nodes s ! i) = component (nodes s ! j)"
  then have "received (render (Element U props [])) =
           map (\<lambda>n. getMappedProps (node_id n) (component n) props) (nodes s)"
    using received_getRecursiveHOC [of s components U props] by simp
  with a show "length (received (render (Element U props []))) = length (nodes s)
     \<and> received (render (Element U props [])) ! i =
         getMappedProps (node_id (nodes s ! i)) (component (nodes s ! i)) props
     \<and> received (render (Element U props [])) ! i = received (render (Element U props [])) ! j"
    by simp
qed

lemma scenario_composed:
  "getRecursiveHOC scenarioStructure scenarioComponents Fragment = Inr scenarioUnit"
  by (simp add: scenarioStructure_def scenarioComponents_def scenarioUnit_def getShape_def)

lemma scenario_registered: "registered scenarioStructure scenarioComponents"
  by (simp add: registered_def scenarioStructure_def scenarioComponents_def)

lemma scenario_nodes:
  "nodes scenarioStructure =
     [Node ''a'' ''Leaf'' None,
      Node ''row'' ''Box'' (Some [Node ''b'' ''Leaf'' None, Node ''b'' ''Leaf'' None]),
      Node ''b'' ''Leaf'' None, Node ''b'' ''Leaf'' None]"
  by (simp add: scenarioStructure_def)

theorem id_sharing_broadcast_witness:
  "getRecursiveHOC scenarioStructure scenarioComponents Fragment = Inr scenarioUnit
   \<and> registered scenarioStructure scenarioComponents
   \<and> (2::nat) < length (nodes scenarioStructure) \<and> (3::nat) < length (nodes scenarioStructure)
   \<and> node_id (nodes scenarioStructure ! 2) = node_id (nodes scenarioStructure ! 3)
   \<and> component (nodes scenarioStructure ! 2) = component (nodes scenarioStructure ! 3)
   \<and> received (render (Element scenarioUnit scenarioProps [])) ! 2 =
       [''id'' \<mapsto> JStr ''b'', ''shared'' \<mapsto> JBool True, ''v'' \<mapsto> JNum 2]
   \<and> received (render (Element scenarioUnit scenarioProps [])) ! 3 =
       [''id'' \<mapsto> JStr ''b'', ''shared'' \<mapsto> JBool True, ''v'' \<mapsto> JNum 2]"
proof -
  have routed: "getMappedProps ''b'' ''Leaf'' scenarioProps =
      [''id'' \<mapsto> JStr ''b'', ''shared'' \<mapsto> JBool True, ''v'' \<mapsto> JNum 2]"
    by (simp add: getMappedProps_def getProp_def scenarioProps_def nameWithProps_def
        toLowerCase_def)
  from id_sharing_broadcast [of scenarioStructure scenarioComponents scenarioUnit 2 3
      scenarioProps] scenario_composed scenario_registered
  show ?thesis
    by (auto simp: scenario_nodes routed)
qed

text \<open>
  The claim as it is written fails for two nodes that share the id but not the type:
  the type-scoped entries of the bag reach only the node of that type.
\<close>

theorem id_sharing_broadcast_counterexample:
  "getRecursiveHOC [Node ''x'' ''Switch'' None, Node ''x'' ''TextInput'' None] COMPONENTS Fragment
     = Inr (Shape [] ''x'' [] ''TextInput'' Fragment
              (Shape [] ''x'' [] ''Switch'' Fragment Fragment (Leaf ''Switch''))
              (Leaf ''TextInput''))
   \<and> received (render (Element
         (Shape [] ''x'' [] ''TextInput'' Fragment
            (Shape [] ''x'' [] ''Switch'' Fragment Fragment (Leaf ''Switch''))
            (Leaf ''TextInput''))
         [''x'' \<mapsto> JObj [''v'' \<mapsto> JNum 1], ''switchProps'' \<mapsto> JObj [''s'' \<mapsto> JBool True]] []))
     = [[''id'' \<mapsto> JStr ''x'', ''s'' \<mapsto> JBool True, ''v'' \<mapsto> JNum 1],
        [''id'' \<mapsto> JStr ''x'', ''v'' \<mapsto> JNum 1]]
   \<and> [''id'' \<mapsto> JStr ''x'', ''s'' \<mapsto> JBool True, ''v'' \<mapsto> JNum 1]
       \<noteq> [''id'' \<mapsto> JStr ''x'', ''v'' \<mapsto> JNum 1]"
proof (intro conjI notI)
  show "getRecursiveHOC [Node ''x'' ''Switch'' None, Node ''x'' ''TextInput'' None] COMPONENTS
      Fragment
     = Inr (Shape [] ''x'' [] ''TextInput'' Fragment
              (Shape [] ''x'' [] ''Switch'' Fragment Fragment (Leaf ''Switch''))
              (Leaf ''TextInput''))"
    by (simp add: COMPONENTS_def getShape_def)
  show "received (render (Element
         (Shape [] ''x'' [] ''TextInput'' Fragment
            (Shape [] ''x'' [] ''Switch'' Fragment Fragment (Leaf ''Switch''))
            (Leaf ''TextInput''))
         [''x'' \<mapsto> JObj [''v'' \<mapsto> JNum 1], ''switchProps'' \<mapsto> JObj [''s'' \<mapsto> JBool True]] []))
     = [[''id'' \<mapsto> JStr ''x'', ''s'' \<mapsto> JBool True, ''v'' \<mapsto> JNum 1],
        [''id'' \<mapsto> JStr ''x'', ''v'' \<mapsto> JNum 1]]"
    by (simp add: shapeBody_def getMappedProps_def getProp_def nameWithProps_def
        toLowerCase_def)
  assume "[''id'' \<mapsto> JStr ''x'', ''s'' \<mapsto> JBool True, ''v'' \<mapsto> JNum 1]
       = [''id'' \<mapsto> JStr ''x'', ''v'' \<mapsto> JNum 1]"
  from fun_cong [OF this, of "''s''"] show False by simp
qed






section \<open>Types that are not in the registry\<close>

lemma readComponent_bound:
  "own components T = None \<Longrightarrow> inherited components T = None \<Longrightarrow>
   orDefault Fragment (readComponent (components\<lparr>own := (own components)(T \<mapsto> Fragment)\<rparr>) c) =
     orDefault Fragment (readComponent components c)"
  by (cases "c = T") (simp_all add: readComponent_def split: option.split)

lemma getRecursiveHOC_unknown:
  "own components T = None \<Longrightarrow> inherited components T = None \<Longrightarrow>
   getRecursiveHOC s (components\<lparr>own := (own components)(T \<mapsto> Fragment)\<rparr>) Result =
     getRecursiveHOC s components Result"
proof (induction s components Result rule: getRecursiveHOC.induct)
  case (1 components Result)
  then show ?case by simp
next
  case (2 nid ncomponent nchildren other components Result)
  let ?bound = "components\<lparr>own := (own components)(T \<mapsto> Fragment)\<rparr>"
  let ?C = "orDefault Fragment (readComponent components ncomponent)"
  have C: "orDefault Fragment (readComponent ?bound ncomponent) = ?C"
    using "2.prems" by (rule readComponent_bound)
  show ?case
  proof (cases nchildren)
    case None
    let ?N = "Shape [] nid [] ncomponent Fragment Result ?C"
    show ?thesis
    proof (cases "other = []")
      case True
      with None show ?thesis
        by (simp add: getShape_def C del: fun_upd_apply)
    next
      case False
      have "getRecursiveHOC other ?bound ?N = getRecursiveHOC other components ?N"
        using "2.IH"(2) [where x = "nchildren \<noteq> None"
            and xa = "readComponent components ncomponent"
            and b = "readComponent components ncomponent" and xaa = ?N] None False "2.prems"
        by (simp add: getShape_def del: fun_upd_apply)
      with None False show ?thesis
        by (simp add: getShape_def C del: fun_upd_apply)
    qed
  next
    case (Some ch)
    have inner: "getRecursiveHOC ch ?bound Fragment = getRecursiveHOC ch components Fragment"
      using "2.IH"(1) [OF refl refl Some "2.prems"] .
    show ?thesis
    proof (cases "getRecursiveHOC ch components Fragment")
      case (Inl e)
      with Some inner show ?thesis by (simp del: fun_upd_apply)
    next
      case (Inr U)
      let ?I = "Shape nid [] ncomponent [] ?C U Fragment"
      let ?N = "Shape [] [] [] [] Fragment Result ?I"
      show ?thesis
      proof (cases "other = []")
        case True
        with Some Inr inner show ?thesis
          by (simp add: getShape_def C del: fun_upd_apply)
      next
        case False
        have "getRecursiveHOC other ?bound ?N = getRecursiveHOC other components ?N"
          using "2.IH"(2) [where x = "nchildren \<noteq> None"
              and xa = "readComponent components ncomponent"
              and b = "Some ?I" and xaa = ?N] Some Inr False "2.prems"
          by (simp add: getShape_def del: fun_upd_apply)
        with Some Inr inner False show ?thesis
          by (simp add: getShape_def C del: fun_upd_apply)
      qed
    qed
  qed
qed

text \<open>
  C6 (as amended).  Let the type name \<open>T\<close> be absent from the registry and not the
  name of a member the registry object inherits, so that the read of \<open>T\<close> yields
  \<open>undefined\<close>.  Then the composition of a structure without an empty sibling list
  returns a unit, whatever nodes of type \<open>T\<close> it has.  The slot the entry would fill
  takes the default of the shape builder, the null renderable: the composition is the
  one of the registry that binds \<open>T\<close> to \<open>Fragment\<close>.  The shape of a leaf node of
  type \<open>T\<close> has \<open>Fragment\<close> in its Component slot and hands it the empty props,
  whatever id and type address the slot.
\<close>

theorem unknown_type_fail_quiet:
  "own components T = None \<and> inherited components T = None \<longrightarrow>
     readComponent components T = None
     \<and> (wellFormed s \<longrightarrow> (\<exists>U. getRecursiveHOC s components Result = Inr U))
     \<and> getRecursiveHOC s components Result =
         getRecursiveHOC s (components\<lparr>own := (own components)(T \<mapsto> Fragment)\<rparr>) Result
     \<and> getRecursiveHOC [Node nid T None] components Result =
         Inr (Shape [] nid [] T Fragment Result Fragment)
     \<and> invoke (Shape [] nid [] T Fragment Result Fragment) props =
         Some (Element Fragment Map.empty
                 [Element Result (getFragmentProps Result props) [],
                  Element Fragment Map.empty []])"
proof (intro impI conjI)
  assume "own components T = None \<and> inherited components T = None"
  then show "readComponent components T = None"
    by (simp add: readComponent_def)
next
  assume "wellFormed s"
  then show "\<exists>U. getRecursiveHOC s components Result = Inr U"
    by (rule getRecursiveHOC_returns)
next
  assume "own components T = None \<and> inherited components T = None"
  then show "getRecursiveHOC s components Result =
      getRecursiveHOC s (components\<lparr>own := (own components)(T \<mapsto> Fragment)\<rparr>) Result"
    by (simp add: getRecursiveHOC_unknown)
next
  assume "own components T = None \<and> inherited components T = None"
  then show "getRecursiveHOC [Node nid T None] components Result =
         Inr (Shape [] nid [] T Fragment Result Fragment)"
    by (simp add: getShape_def readComponent_def)
next
  show "invoke (Shape [] nid [] T Fragment Result Fragment) props =
         Some (Element Fragment Map.empty
                 [Element Result (getFragmentProps Result props) [],
                  Element Fragment Map.empty []])"
    by (simp add: shapeBody_def)
qed

theorem unknown_type_fail_quiet_witness:
  "own COMPONENTS ''Ghost'' = None \<and> inherited COMPONENTS ''Ghost'' = None
   \<and> wellFormed [Node ''firstInput'' ''TextInput'' None, Node ''g'' ''Ghost'' None]
   \<and> getRecursiveHOC [Node ''firstInput'' ''TextInput'' None, Node ''g'' ''Ghost'' None]
        COMPONENTS Fragment
     = Inr (Shape [] ''g'' [] ''Ghost'' Fragment
              (Shape [] ''firstInput'' [] ''TextInput'' Fragment Fragment (Leaf ''TextInput''))
              Fragment)
   \<and> getRecursiveHOC [Node ''firstInput'' ''TextInput'' None, Node ''g'' ''Ghost'' None]
        (COMPONENTS\<lparr>own := (own COMPONENTS)(''Ghost'' \<mapsto> Fragment)\<rparr>) Fragment
     = Inr (Shape [] ''g'' [] ''Ghost'' Fragment
              (Shape [] ''firstInput'' [] ''TextInput'' Fragment Fragment (Leaf ''TextInput''))
              Fragment)
   \<and> getRecursiveHOC [Node ''g'' ''Ghost'' None] COMPONENTS Fragment
     = Inr (Shape [] ''g'' [] ''Ghost'' Fragment Fragment Fragment)
   \<and> invoke (Shape [] ''g'' [] ''Ghost'' Fragment Fragment Fragment)
        [''g'' \<mapsto> JObj [''a'' \<mapsto> JNum 1]]
     = Some (Element Fragment Map.empty
               [Element Fragment Map.empty [], Element Fragment Map.empty []])"
proof -
  have ghost: "own COMPONENTS ''Ghost'' = None \<and> inherited COMPONENTS ''Ghost'' = None"
    by (simp add: COMPONENTS_def objectLiteral_def objectPrototype_def)
  have composed:
    "getRecursiveHOC [Node ''firstInput'' ''TextInput'' None, Node ''g'' ''Ghost'' None]
        COMPONENTS Fragment
     = Inr (Shape [] ''g'' [] ''Ghost'' Fragment
              (Shape [] ''firstInput'' [] ''TextInput'' Fragment Fragment (Leaf ''TextInput''))
              Fragment)"
    by (simp add: COMPONENTS_def objectPrototype_def getShape_def)
  note quiet = unknown_type_fail_quiet [of COMPONENTS "''Ghost''"
      "[Node ''firstInput'' ''TextInput'' None, Node ''g'' ''Ghost'' None]" Fragment "''g''"
      "[''g'' \<mapsto> JObj [''a'' \<mapsto> JNum 1]]", THEN mp, OF ghost]
  from quiet have same:
    "getRecursiveHOC [Node ''firstInput'' ''TextInput'' None, Node ''g'' ''Ghost'' None]
        COMPONENTS Fragment
     = getRecursiveHOC [Node ''firstInput'' ''TextInput'' None, Node ''g'' ''Ghost'' None]
        (COMPONENTS\<lparr>own := (own COMPONENTS)(''Ghost'' \<mapsto> Fragment)\<rparr>) Fragment"
    by (elim conjE)
  from quiet have leaf: "getRecursiveHOC [Node ''g'' ''Ghost'' None] COMPONENTS Fragment
     = Inr (Shape [] ''g'' [] ''Ghost'' Fragment Fragment Fragment)"
    by (elim conjE)
  from quiet have slot: "invoke (Shape [] ''g'' [] ''Ghost'' Fragment Fragment Fragment)
        [''g'' \<mapsto> JObj [''a'' \<mapsto> JNum 1]]
     = Some (Element Fragment Map.empty
               [Element Fragment (getFragmentProps Fragment [''g'' \<mapsto> JObj [''a'' \<mapsto> JNum 1]]) [],
                Element Fragment Map.empty []])"
    by (elim conjE)
  from composed have bound:
    "getRecursiveHOC [Node ''firstInput'' ''TextInput'' None, Node ''g'' ''Ghost'' None]
        (COMPONENTS\<lparr>own := (own COMPONENTS)(''Ghost'' \<mapsto> Fragment)\<rparr>) Fragment
     = Inr (Shape [] ''g'' [] ''Ghost'' Fragment
              (Shape [] ''firstInput'' [] ''TextInput'' Fragment Fragment (Leaf ''TextInput''))
              Fragment)"
    unfolding same .
  have wf: "wellFormed [Node ''firstInput'' ''TextInput'' None, Node ''g'' ''Ghost'' None]"
    by simp
  from slot have slot': "invoke (Shape [] ''g'' [] ''Ghost'' Fragment Fragment Fragment)
        [''g'' \<mapsto> JObj [''a'' \<mapsto> JNum 1]]
     = Some (Element Fragment Map.empty
               [Element Fragment Map.empty [], Element Fragment Map.empty []])"
    by (simp only: getFragmentProps_Fragment)
  from ghost wf composed bound leaf slot' show ?thesis
    by (intro conjI) (elim conjE, assumption)+
qed

text \<open>
  The claim as it is written fails for a type name that is absent from the registry
  but names a member the registry object inherits: for the registry \<open>{}\<close> and the type
  \<open>constructor\<close> the read yields the function \<open>Object\<close>, the slot is not the null
  renderable, and it receives the routed props.  And a node of an unknown type whose
  children sequence is empty makes the composition raise, as every empty sibling list.
\<close>

theorem unknown_type_fail_quiet_counterexample:
  "own (objectLiteral Map.empty) ''constructor'' = None
   \<and> readComponent (objectLiteral Map.empty) ''constructor'' = Some (Leaf ''Object'')
   \<and> getRecursiveHOC [Node ''g'' ''constructor'' None] (objectLiteral Map.empty) Fragment
     = Inr (Shape [] ''g'' [] ''constructor'' Fragment Fragment (Leaf ''Object''))
   \<and> invoke (Shape [] ''g'' [] ''constructor'' Fragment Fragment (Leaf ''Object''))
        [''g'' \<mapsto> JObj [''a'' \<mapsto> JNum 1]]
     = Some (Element Fragment Map.empty
               [Element Fragment Map.empty [],
                Element (Leaf ''Object'') [''id'' \<mapsto> JStr ''g'', ''a'' \<mapsto> JNum 1] []])
   \<and> Leaf ''Object'' \<noteq> Fragment
   \<and> [''id'' \<mapsto> JStr ''g'', ''a'' \<mapsto> JNum 1] \<noteq> Map.empty
   \<and> readComponent (objectLiteral Map.empty) ''Ghost'' = None
   \<and> getRecursiveHOC [Node ''g'' ''Ghost'' (Some [])] (objectLiteral Map.empty) Fragment
     = Inl TypeError"
  by (simp add: objectLiteral_def readComponent_def objectPrototype_def getShape_def
      shapeBody_def getMappedProps_def getProp_def nameWithProps_def toLowerCase_def)

end
